theory Spec2Isabelle
  imports Main
begin

section \<open>Shortcut model\<close>

text \<open>
  A model of the plugin ``Fake Voice Options'' (src/index.tsx). The earlier revision
  of the plugin (src/unnamed/part_000) has the same synchronizer and no shortcuts.

  The plugin keeps a keyboard shortcut as a \<^verbatim>\<open>KeybindSetting\<close> object, or
  \<^verbatim>\<open>null\<close> when none is configured (\<^verbatim>\<open>KeybindValue\<close>).
\<close>

record KeybindSetting =
  key :: string
  code :: string
  ctrl :: bool
  shift :: bool
  alt :: bool
  meta :: bool

type_synonym KeybindValue = "KeybindSetting option"

text \<open>
  The target of a DOM event, as far as \<^verbatim>\<open>shouldIgnoreKeybindTarget\<close> looks at it:
  whether it is an \<^verbatim>\<open>HTMLElement\<close> at all, its \<^verbatim>\<open>tagName\<close>, and whether the DOM
  query \<^verbatim>\<open>target.closest("[contenteditable='true']")\<close> finds an element (the
  target itself or one of its ancestors).
\<close>

datatype EventTarget =
  NotHTMLElement
  | HTMLElement (tagName: string) (closestContentEditable: bool)

text \<open>
  The fields of a \<^verbatim>\<open>KeyboardEvent\<close> that the plugin reads. The event's \<^verbatim>\<open>key\<close>
  and \<^verbatim>\<open>code\<close> are named \<open>event_key\<close> and \<open>event_code\<close> here, the shortcut's
  fields keep the plain names.
\<close>

record KeyboardEvent =
  event_key :: string
  event_code :: string
  ctrlKey :: bool
  shiftKey :: bool
  altKey :: bool
  metaKey :: bool
  repeat :: bool
  defaultPrevented :: bool
  target :: EventTarget

definition MODIFIER_KEYS :: "string set" where
  "MODIFIER_KEYS = {''Shift'', ''Control'', ''Alt'', ''Meta''}"

definition KEY_LABEL_OVERRIDES :: "(string \<times> string) list" where
  "KEY_LABEL_OVERRIDES =
    [('' '', ''Space''),
     (''Spacebar'', ''Space''),
     (''Escape'', ''Esc''),
     (''ArrowUp'', ''Up''),
     (''ArrowDown'', ''Down''),
     (''ArrowLeft'', ''Left''),
     (''ArrowRight'', ''Right''),
     (''PageUp'', ''Page Up''),
     (''PageDown'', ''Page Down'')]"

text \<open>
  JavaScript's \<^verbatim>\<open>toUpperCase\<close> and \<^verbatim>\<open>toLowerCase\<close>, on the ASCII letters; every
  other character is left as it is. The strings of this model are ASCII: the
  Unicode case mappings of JavaScript, which can also change the length of a string,
  are not modelled.
\<close>

definition toUpperCase_char :: "char \<Rightarrow> char" where
  "toUpperCase_char c =
    (case map_of (zip ''abcdefghijklmnopqrstuvwxyz'' ''ABCDEFGHIJKLMNOPQRSTUVWXYZ'') c of
       Some u \<Rightarrow> u
     | None \<Rightarrow> c)"

definition toLowerCase_char :: "char \<Rightarrow> char" where
  "toLowerCase_char c =
    (case map_of (zip ''ABCDEFGHIJKLMNOPQRSTUVWXYZ'' ''abcdefghijklmnopqrstuvwxyz'') c of
       Some l \<Rightarrow> l
     | None \<Rightarrow> c)"

definition toUpperCase :: "string \<Rightarrow> string" where
  "toUpperCase s = map toUpperCase_char s"

definition toLowerCase :: "string \<Rightarrow> string" where
  "toLowerCase s = map toLowerCase_char s"

definition startsWith :: "string \<Rightarrow> string \<Rightarrow> bool" where
  "startsWith s p = (take (length p) s = p)"

text \<open>\<^verbatim>\<open>parts.join(sep)\<close>\<close>

fun join :: "string list \<Rightarrow> string \<Rightarrow> string" where
  "join [] sep = []"
| "join [p] sep = p"
| "join (p # q # ps) sep = p @ sep @ join (q # ps) sep"

text \<open>
  \<^verbatim>\<open>KEY_LABEL_OVERRIDES[key]\<close> is a lookup among the nine entries of the table. In
  the source the table is a plain object, so a key that names a property inherited
  from \<^verbatim>\<open>Object.prototype\<close> (\<^verbatim>\<open>constructor\<close>, \<^verbatim>\<open>toString\<close>, ...) finds that
  property instead of a label; such keys are not modelled.
\<close>

definition formatKeyName :: "string \<Rightarrow> string \<Rightarrow> string" where
  "formatKeyName k c =
    (case map_of KEY_LABEL_OVERRIDES k of
       Some label \<Rightarrow> label
     | None \<Rightarrow>
        if (k = ''Dead'' \<or> k = ''Unidentified'') \<and> startsWith c ''Key''
          then toUpperCase (drop 3 c)
        else if (k = ''Dead'' \<or> k = ''Unidentified'') \<and> startsWith c ''Digit''
          then drop 5 c
        else if (k = ''Dead'' \<or> k = ''Unidentified'') \<and> startsWith c ''Numpad''
          then ''Numpad '' @ drop 6 c
        else if length k = 1 then toUpperCase k
        else k)"

text \<open>
  \<^verbatim>\<open>IS_MAC\<close> is a constant of the host (\<^verbatim>\<open>@utils/constants\<close>); it is a parameter
  here.
\<close>

definition formatKeybind :: "bool \<Rightarrow> KeybindValue \<Rightarrow> string" where
  "formatKeybind IS_MAC keybind =
    (case keybind of
       None \<Rightarrow> ''Not set''
     | Some kb \<Rightarrow>
        join
          ((if ctrl kb then [''Ctrl''] else [])
           @ (if shift kb then [''Shift''] else [])
           @ (if alt kb then [if IS_MAC then ''Option'' else ''Alt''] else [])
           @ (if meta kb then [if IS_MAC then ''Cmd'' else ''Meta''] else [])
           @ [formatKeyName (key kb) (code kb)])
          ''+'')"

definition keybindFromEvent :: "KeyboardEvent \<Rightarrow> KeybindValue" where
  "keybindFromEvent event =
    (if event_key event \<in> MODIFIER_KEYS then None
     else Some \<lparr>key = event_key event,
                code = event_code event,
                ctrl = ctrlKey event,
                shift = shiftKey event,
                alt = altKey event,
                meta = metaKey event\<rparr>)"

text \<open>
  \<^verbatim>\<open>keybind.code ? event.code === keybind.code : event.key === keybind.key\<close>: the empty
  string is the one falsy string.
\<close>

definition matchesKeybind :: "KeyboardEvent \<Rightarrow> KeybindValue \<Rightarrow> bool" where
  "matchesKeybind event keybind =
    (case keybind of
       None \<Rightarrow> False
     | Some kb \<Rightarrow>
        let keyMatches =
              (if code kb \<noteq> [] then event_code event = code kb
               else event_key event = key kb)
        in if \<not> keyMatches then False
           else ctrlKey event = ctrl kb
                \<and> shiftKey event = shift kb
                \<and> altKey event = alt kb
                \<and> metaKey event = meta kb)"

definition shouldIgnoreKeybindTarget :: "EventTarget \<Rightarrow> bool" where
  "shouldIgnoreKeybindTarget t =
    (case t of
       NotHTMLElement \<Rightarrow> False
     | HTMLElement tag editable \<Rightarrow>
        if editable then True
        else let tagName = toLowerCase tag
             in tagName = ''input'' \<or> tagName = ''textarea'' \<or> tagName = ''select'')"

section \<open>Host services\<close>

text \<open>
  The voice-state store, the user store, the media engine and the settings store
  belong to the host application. A \<open>Host\<close> is what they answer at the moment of a
  call; every function that consults them takes it as an argument.
\<close>

record VoiceState =
  selfMute :: bool
  selfDeaf :: bool

text \<open>
  A connection of the media engine: an identity, its \<^verbatim>\<open>context\<close> (the field is
  named \<open>connection_context\<close> here), and whether it offers the methods
  \<^verbatim>\<open>setSelfMute\<close> and \<^verbatim>\<open>setSelfDeaf\<close> (the plugin calls them with \<^verbatim>\<open>?.(...)\<close>).
\<close>

record Connection =
  connectionId :: nat
  connection_context :: string
  hasSetSelfMute :: bool
  hasSetSelfDeaf :: bool

text \<open>
  \<open>currentUserId\<close> is \<^verbatim>\<open>UserStore?.getCurrentUser?.()?.id\<close>, \<open>getVoiceStateForUser\<close>
  is \<^verbatim>\<open>VoiceStateStore?.getVoiceStateForUser\<close>, \<open>connections\<close> is
  \<^verbatim>\<open>MediaEngineStore?.getMediaEngine?.()?.connections\<close> in iteration order (an entry
  may be \<^verbatim>\<open>null\<close>); each is \<open>None\<close> when the chain yields \<^verbatim>\<open>undefined\<close>.
  \<open>storeWriteFiresOnChange\<close> says whether the host's settings store runs a setting's
  \<^verbatim>\<open>onChange\<close> callback when the plugin assigns to \<^verbatim>\<open>settings.store\<close>.
\<close>

record Host =
  currentUserId :: "string option"
  getVoiceStateForUser :: "(string \<Rightarrow> VoiceState option) option"
  connections :: "Connection option list option"
  storeWriteFiresOnChange :: bool

text \<open>A call of a setter of the real engine, on a connection.\<close>

datatype EngineCall =
  SetSelfMute Connection bool
  | SetSelfDeaf Connection bool

section \<open>Plugin state\<close>

record SettingsStore =
  fakeMute :: bool
  fakeDeafen :: bool
  showFakeMuteButton :: bool
  showFakeDeafenButton :: bool
  fakeMuteHotkey :: KeybindValue
  fakeDeafenHotkey :: KeybindValue

text \<open>
  \<^verbatim>\<open>VoiceButtonSettings\<close> renders two \<^verbatim>\<open>KeybindRow\<close> components, one for each
  action. A row's \<^verbatim>\<open>stopRecording\<close> callback is stable (\<^verbatim>\<open>useCallback\<close> with no
  dependencies), so the row also stands for its stop capability.
\<close>

datatype Row = MuteRow | DeafenRow

text \<open>The capturing \<^verbatim>\<open>keydown\<close> listeners the plugin puts on \<^verbatim>\<open>window\<close>.\<close>

datatype Listener = HandleHotkeys | HandleKeyDown Row

text \<open>
  What the recorder does with the process-wide slot, in order: calling the stop
  capability it holds, and making a row's capability the active one.
\<close>

datatype RecorderEvent = StopCapabilityInvoked Row | SessionActivated Row

text \<open>
  The module-level variables (\<open>lastSelfMute\<close>, \<open>lastSelfDeaf\<close>,
  \<open>activeKeybindRecorderStop\<close>, \<open>isRecordingKeybind\<close>, \<open>hotkeyListenerActive\<close>), the
  settings store, the React state \<^verbatim>\<open>isRecording\<close> of each row, the \<^verbatim>\<open>keydown\<close>
  listeners on \<^verbatim>\<open>window\<close>, and two logs of what was done: the setter calls made on
  engine connections and the recorder's events.
\<close>

record PluginState =
  lastSelfMute :: "bool option"
  lastSelfDeaf :: "bool option"
  activeKeybindRecorderStop :: "Row option"
  isRecordingKeybind :: bool
  hotkeyListenerActive :: bool
  store :: SettingsStore
  isRecording :: "Row \<Rightarrow> bool"
  keydownListeners :: "Listener set"
  engineCalls :: "EngineCall list"
  recorderLog :: "RecorderEvent list"

definition defaultSettings :: SettingsStore where
  "defaultSettings =
    \<lparr>fakeMute = False, fakeDeafen = False,
     showFakeMuteButton = True, showFakeDeafenButton = True,
     fakeMuteHotkey = None, fakeDeafenHotkey = None\<rparr>"

definition initialState :: PluginState where
  "initialState =
    \<lparr>lastSelfMute = None, lastSelfDeaf = None,
     activeKeybindRecorderStop = None, isRecordingKeybind = False,
     hotkeyListenerActive = False,
     store = defaultSettings,
     isRecording = (\<lambda>r. False),
     keydownListeners = {},
     engineCalls = [],
     recorderLog = []\<rparr>"

section \<open>Fake-state synchronizer\<close>

definition getSelfVoiceState :: "Host \<Rightarrow> VoiceState option" where
  "getSelfVoiceState h =
    (case currentUserId h of
       None \<Rightarrow> None
     | Some uid \<Rightarrow>
        if uid = [] then None
        else (case getVoiceStateForUser h of
                None \<Rightarrow> None
              | Some lookup \<Rightarrow> lookup uid))"

text \<open>
  The loop of \<^verbatim>\<open>getDefaultMediaConnection\<close> over the connections that are left, with
  the current \<^verbatim>\<open>fallbackConnection\<close>.
\<close>

fun connectionLoop :: "Connection option \<Rightarrow> Connection option list \<Rightarrow> Connection option" where
  "connectionLoop fallbackConnection [] = fallbackConnection"
| "connectionLoop fallbackConnection (connection # rest) =
    (let fallback' = (if fallbackConnection = None then connection else fallbackConnection)
     in case connection of
          None \<Rightarrow> connectionLoop fallback' rest
        | Some c \<Rightarrow>
           if connection_context c = ''default'' then Some c
           else connectionLoop fallback' rest)"

definition getDefaultMediaConnection :: "Host \<Rightarrow> Connection option" where
  "getDefaultMediaConnection h =
    (case connections h of
       None \<Rightarrow> None
     | Some cs \<Rightarrow> connectionLoop None cs)"

definition setLocalMute :: "Host \<Rightarrow> bool \<Rightarrow> PluginState \<Rightarrow> PluginState" where
  "setLocalMute h muted s =
    (case getDefaultMediaConnection h of
       None \<Rightarrow> s
     | Some connection \<Rightarrow>
        if hasSetSelfMute connection
          then s\<lparr>engineCalls := engineCalls s @ [SetSelfMute connection muted]\<rparr>
        else s)"

definition setLocalDeaf :: "Host \<Rightarrow> bool \<Rightarrow> PluginState \<Rightarrow> PluginState" where
  "setLocalDeaf h deafened s =
    (case getDefaultMediaConnection h of
       None \<Rightarrow> s
     | Some connection \<Rightarrow>
        if hasSetSelfDeaf connection
          then s\<lparr>engineCalls := engineCalls s @ [SetSelfDeaf connection deafened]\<rparr>
        else s)"

definition syncFakeMute :: "Host \<Rightarrow> bool \<Rightarrow> PluginState \<Rightarrow> PluginState" where
  "syncFakeMute h nextFakeMute s =
    (let voiceState = getSelfVoiceState h
     in if nextFakeMute
          then setLocalMute h False (s\<lparr>lastSelfMute := map_option selfMute voiceState\<rparr>)
        else case lastSelfMute s of
               Some stored \<Rightarrow> (setLocalMute h stored s)\<lparr>lastSelfMute := None\<rparr>
             | None \<Rightarrow>
                (case voiceState of
                   None \<Rightarrow> s
                 | Some vs \<Rightarrow> setLocalMute h (selfMute vs) s))"

definition syncFakeDeafen :: "Host \<Rightarrow> bool \<Rightarrow> PluginState \<Rightarrow> PluginState" where
  "syncFakeDeafen h nextFakeDeafen s =
    (let voiceState = getSelfVoiceState h
     in if nextFakeDeafen
          then setLocalDeaf h False (s\<lparr>lastSelfDeaf := map_option selfDeaf voiceState\<rparr>)
        else case lastSelfDeaf s of
               Some stored \<Rightarrow> (setLocalDeaf h stored s)\<lparr>lastSelfDeaf := None\<rparr>
             | None \<Rightarrow>
                (case voiceState of
                   None \<Rightarrow> s
                 | Some vs \<Rightarrow> setLocalDeaf h (selfDeaf vs) s))"

text \<open>
  The connection that the setters are meant to reach, in the words of the
  specification: among the connections that are there, the first whose context is
  \<^verbatim>\<open>default\<close>; failing that, the first one; failing that, none.
\<close>

definition presentConnections :: "Host \<Rightarrow> Connection list" where
  "presentConnections h =
    (case connections h of
       None \<Rightarrow> []
     | Some cs \<Rightarrow> concat (map (\<lambda>entry. case entry of None \<Rightarrow> [] | Some c \<Rightarrow> [c]) cs))"

definition chosenConnection :: "Host \<Rightarrow> Connection option" where
  "chosenConnection h =
    (case find (\<lambda>c. connection_context c = ''default'') (presentConnections h) of
       Some c \<Rightarrow> Some c
     | None \<Rightarrow>
        (case presentConnections h of
           [] \<Rightarrow> None
         | c # _ \<Rightarrow> Some c))"

text \<open>The setter calls that a step from \<open>s\<close> to \<open>s'\<close> added to the log.\<close>

definition newEngineCalls :: "PluginState \<Rightarrow> PluginState \<Rightarrow> EngineCall list" where
  "newEngineCalls s s' = drop (length (engineCalls s)) (engineCalls s')"

section \<open>Global hotkey dispatcher\<close>

text \<open>
  \<^verbatim>\<open>settings.store.fakeMute = next\<close>, and the same for the deafen flag. Both settings
  are defined with \<^verbatim>\<open>onChange: next => syncFakeMute(next)\<close> (and \<^verbatim>\<open>syncFakeDeafen\<close>);
  the host decides whether an assignment to the store runs that callback.
\<close>

definition write_fakeMute :: "Host \<Rightarrow> bool \<Rightarrow> PluginState \<Rightarrow> PluginState" where
  "write_fakeMute h v s =
    (let s1 = s\<lparr>store := (store s)\<lparr>fakeMute := v\<rparr>\<rparr>
     in if storeWriteFiresOnChange h then syncFakeMute h v s1 else s1)"

definition write_fakeDeafen :: "Host \<Rightarrow> bool \<Rightarrow> PluginState \<Rightarrow> PluginState" where
  "write_fakeDeafen h v s =
    (let s1 = s\<lparr>store := (store s)\<lparr>fakeDeafen := v\<rparr>\<rparr>
     in if storeWriteFiresOnChange h then syncFakeDeafen h v s1 else s1)"

text \<open>
  \<^verbatim>\<open>handleHotkeys\<close> returns the new state and \<^verbatim>\<open>handled\<close>: whether it called
  \<^verbatim>\<open>preventDefault\<close> and \<^verbatim>\<open>stopPropagation\<close> on the event. The two shortcuts are
  read from the store before anything is written.
\<close>

definition handleHotkeys :: "Host \<Rightarrow> KeyboardEvent \<Rightarrow> PluginState \<Rightarrow> PluginState \<times> bool" where
  "handleHotkeys h event s =
    (if defaultPrevented event \<or> repeat event \<or> isRecordingKeybind s then (s, False)
     else if shouldIgnoreKeybindTarget (target event) then (s, False)
     else
       let muteHotkey = fakeMuteHotkey (store s);
           deafenHotkey = fakeDeafenHotkey (store s);
           (s1, handled1) =
             (if matchesKeybind event muteHotkey
                then (let next = \<not> fakeMute (store s)
                      in (syncFakeMute h next (write_fakeMute h next s), True))
              else (s, False));
           (s2, handled2) =
             (if matchesKeybind event deafenHotkey
                then (let next = \<not> fakeDeafen (store s1)
                      in (syncFakeDeafen h next (write_fakeDeafen h next s1), True))
              else (s1, handled1))
       in (s2, handled2))"

text \<open>
  \<^verbatim>\<open>window.addEventListener("keydown", l, true)\<close> and its removal: the browser keeps
  a listener once, however often it is added.
\<close>

definition addEventListener :: "Listener \<Rightarrow> PluginState \<Rightarrow> PluginState" where
  "addEventListener l s = s\<lparr>keydownListeners := insert l (keydownListeners s)\<rparr>"

definition removeEventListener :: "Listener \<Rightarrow> PluginState \<Rightarrow> PluginState" where
  "removeEventListener l s = s\<lparr>keydownListeners := keydownListeners s - {l}\<rparr>"

definition startHotkeyListener :: "PluginState \<Rightarrow> PluginState" where
  "startHotkeyListener s =
    (if hotkeyListenerActive s then s
     else (addEventListener HandleHotkeys s)\<lparr>hotkeyListenerActive := True\<rparr>)"

definition stopHotkeyListener :: "PluginState \<Rightarrow> PluginState" where
  "stopHotkeyListener s =
    (if \<not> hotkeyListenerActive s then s
     else (removeEventListener HandleHotkeys s)
            \<lparr>hotkeyListenerActive := False,
             activeKeybindRecorderStop := None,
             isRecordingKeybind := False\<rparr>)"

section \<open>Voice panel buttons\<close>

text \<open>
  The \<^verbatim>\<open>onClick\<close> handlers of the two buttons of \<^verbatim>\<open>FakeVoiceButtons\<close>; a button is
  rendered only while its \<^verbatim>\<open>showFake...Button\<close> setting is on.
\<close>

definition clickFakeMuteButton :: "Host \<Rightarrow> PluginState \<Rightarrow> PluginState" where
  "clickFakeMuteButton h s =
    (if \<not> showFakeMuteButton (store s) then s
     else let nextFakeMute = \<not> fakeMute (store s)
          in syncFakeMute h nextFakeMute (write_fakeMute h nextFakeMute s))"

definition clickFakeDeafenButton :: "Host \<Rightarrow> PluginState \<Rightarrow> PluginState" where
  "clickFakeDeafenButton h s =
    (if \<not> showFakeDeafenButton (store s) then s
     else let nextFakeDeafen = \<not> fakeDeafen (store s)
          in syncFakeDeafen h nextFakeDeafen (write_fakeDeafen h nextFakeDeafen s))"

section \<open>Recorder arbiter\<close>

text \<open>The props that \<^verbatim>\<open>VoiceButtonSettings\<close> passes to its two rows.\<close>

definition onHotkeyChange :: "Row \<Rightarrow> KeybindValue \<Rightarrow> PluginState \<Rightarrow> PluginState" where
  "onHotkeyChange r v s =
    (case r of
       MuteRow \<Rightarrow> s\<lparr>store := (store s)\<lparr>fakeMuteHotkey := v\<rparr>\<rparr>
     | DeafenRow \<Rightarrow> s\<lparr>store := (store s)\<lparr>fakeDeafenHotkey := v\<rparr>\<rparr>)"

definition onEnabledChange :: "Row \<Rightarrow> bool \<Rightarrow> PluginState \<Rightarrow> PluginState" where
  "onEnabledChange r v s =
    (case r of
       MuteRow \<Rightarrow> s\<lparr>store := (store s)\<lparr>showFakeMuteButton := v\<rparr>\<rparr>
     | DeafenRow \<Rightarrow> s\<lparr>store := (store s)\<lparr>showFakeDeafenButton := v\<rparr>\<rparr>)"

text \<open>
  React's state setter of a row, and the row's \<^verbatim>\<open>stopRecording\<close> callback
  (\<^verbatim>\<open>() => setIsRecording(false)\<close>). The new value is what the row renders with
  next.
\<close>

definition setIsRecording :: "Row \<Rightarrow> bool \<Rightarrow> PluginState \<Rightarrow> PluginState" where
  "setIsRecording r v s = s\<lparr>isRecording := (isRecording s)(r := v)\<rparr>"

definition stopRecording :: "Row \<Rightarrow> PluginState \<Rightarrow> PluginState" where
  "stopRecording r s = setIsRecording r False s"

text \<open>
  The second effect of \<^verbatim>\<open>KeybindRow\<close> (lines 243 to 279), run for row \<open>r\<close> that
  rendered with \<^verbatim>\<open>isRecording\<close> equal to \<open>recording\<close>. The row's own
  \<^verbatim>\<open>stopRecording\<close> is \<open>r\<close>. The log gets an entry where the effect calls the
  capability held in the slot, and where it assigns the row's own capability to the
  slot.
\<close>

definition KeybindRow_effect :: "Row \<Rightarrow> bool \<Rightarrow> PluginState \<Rightarrow> PluginState" where
  "KeybindRow_effect r recording s =
    (if \<not> recording then
       (let s1 = (if activeKeybindRecorderStop s = Some r
                    then s\<lparr>activeKeybindRecorderStop := None\<rparr>
                  else s)
        in s1\<lparr>isRecordingKeybind := (activeKeybindRecorderStop s1 \<noteq> None)\<rparr>)
     else
       (let s1 = (case activeKeybindRecorderStop s of
                    None \<Rightarrow> s
                  | Some other \<Rightarrow>
                     if other \<noteq> r
                       then stopRecording other
                              (s\<lparr>recorderLog := recorderLog s @ [StopCapabilityInvoked other]\<rparr>)
                     else s);
            s2 = s1\<lparr>activeKeybindRecorderStop := Some r,
                    recorderLog := recorderLog s1 @ [SessionActivated r]\<rparr>;
            s3 = s2\<lparr>isRecordingKeybind := True\<rparr>
        in addEventListener (HandleKeyDown r) s3))"

text \<open>
  The cleanup that the effect returns when it ran with \<^verbatim>\<open>isRecording\<close> true; it
  removes a listener that is there only in that case.
\<close>

definition KeybindRow_cleanup :: "Row \<Rightarrow> PluginState \<Rightarrow> PluginState" where
  "KeybindRow_cleanup r s = removeEventListener (HandleKeyDown r) s"

text \<open>
  The \<^verbatim>\<open>keydown\<close> listener of a recording row. It always calls \<^verbatim>\<open>preventDefault\<close>
  and \<^verbatim>\<open>stopPropagation\<close> on the event first, which changes nothing in the
  plugin's state.
\<close>

definition handleKeyDown :: "Row \<Rightarrow> KeyboardEvent \<Rightarrow> PluginState \<Rightarrow> PluginState" where
  "handleKeyDown r event s =
    (if repeat event then s
     else if event_key event = ''Escape'' then setIsRecording r False s
     else case keybindFromEvent event of
            None \<Rightarrow> s
          | Some keybind \<Rightarrow> setIsRecording r False (onHotkeyChange r (Some keybind) s))"

text \<open>
  React runs a row's effect again when \<^verbatim>\<open>isRecording\<close> differs from the value the
  effect last ran with (\<^verbatim>\<open>stopRecording\<close>, the other dependency, never changes). The
  row's listener is on \<^verbatim>\<open>window\<close> exactly when the effect last ran with
  \<^verbatim>\<open>isRecording\<close> true.
\<close>

definition effectPending :: "PluginState \<Rightarrow> Row \<Rightarrow> bool" where
  "effectPending s r = (isRecording s r \<noteq> (HandleKeyDown r \<in> keydownListeners s))"

text \<open>
  One commit of React: the rows whose dependency changed run the cleanup of their
  previous effect, then their effect with the value they rendered with.
\<close>

definition reactCommit :: "PluginState \<Rightarrow> PluginState" where
  "reactCommit s =
    (let changed = filter (effectPending s) [MuteRow, DeafenRow];
         s1 = fold KeybindRow_cleanup changed s
     in fold (\<lambda>r. KeybindRow_effect r (isRecording s r)) changed s1)"

text \<open>
  After an event handler React commits until nothing is pending. An effect sets state
  only by stopping another row, and the effect of a stopped row sets none, so two
  commits are enough.
\<close>

definition reactFlush :: "PluginState \<Rightarrow> PluginState" where
  "reactFlush s = reactCommit (reactCommit s)"

text \<open>
  A click on a row's keybind display or on its Edit button
  (\<^verbatim>\<open>setIsRecording(recording => !recording)\<close>), a key that reaches the listener of a
  recording row, a click on a row's clear button, and a change of its switch.
\<close>

definition clickRecord :: "Row \<Rightarrow> PluginState \<Rightarrow> PluginState" where
  "clickRecord r s = reactFlush (setIsRecording r (\<not> isRecording s r) s)"

definition keydownWhileRecording :: "Row \<Rightarrow> KeyboardEvent \<Rightarrow> PluginState \<Rightarrow> PluginState" where
  "keydownWhileRecording r event s =
    (if HandleKeyDown r \<in> keydownListeners s then reactFlush (handleKeyDown r event s) else s)"

definition clickClear :: "Row \<Rightarrow> PluginState \<Rightarrow> PluginState" where
  "clickClear r s = onHotkeyChange r None s"

text \<open>
  No row is recording and the slot is empty, as when the settings panel has just
  been opened for the first time.
\<close>

definition recorderIdle :: "PluginState \<Rightarrow> bool" where
  "recorderIdle s =
    (activeKeybindRecorderStop s = None \<and> \<not> isRecordingKeybind s
     \<and> \<not> isRecording s MuteRow \<and> \<not> isRecording s DeafenRow
     \<and> HandleKeyDown MuteRow \<notin> keydownListeners s
     \<and> HandleKeyDown DeafenRow \<notin> keydownListeners s)"

text \<open>
  A row has a recording session: it is in its Recording state (it shows
  ``Recording...'' and, once its effect has run, its key listener captures the next
  key).
\<close>

definition sessionActive :: "PluginState \<Rightarrow> Row \<Rightarrow> bool" where
  "sessionActive s r = isRecording s r"

section \<open>Invariant of the recorder arbiter\<close>

text \<open>
  Used in the proofs: a row is recording exactly when its stop capability is in the
  slot, its listener is on \<^verbatim>\<open>window\<close> exactly then, and the flag says whether the
  slot is occupied.
\<close>

definition recorderInv :: "PluginState \<Rightarrow> bool" where
  "recorderInv s =
    ((\<forall>r. isRecording s r = (activeKeybindRecorderStop s = Some r))
     \<and> (\<forall>r. (HandleKeyDown r \<in> keydownListeners s) = (activeKeybindRecorderStop s = Some r))
     \<and> isRecordingKeybind s = (activeKeybindRecorderStop s \<noteq> None))"

text \<open>The part of the state that the recorder arbiter uses.\<close>

definition recorderView ::
  "PluginState \<Rightarrow> Row option \<times> bool \<times> (Row \<Rightarrow> bool) \<times> Listener set \<times> RecorderEvent list" where
  "recorderView s =
    (activeKeybindRecorderStop s, isRecordingKeybind s, isRecording s, keydownListeners s,
     recorderLog s)"

section \<open>Example hosts and states\<close>

definition defaultConnection :: Connection where
  "defaultConnection =
    \<lparr>connectionId = 1, connection_context = ''default'',
     hasSetSelfMute = True, hasSetSelfDeaf = True\<rparr>"

definition streamConnection :: Connection where
  "streamConnection =
    \<lparr>connectionId = 2, connection_context = ''stream'',
     hasSetSelfMute = True, hasSetSelfDeaf = True\<rparr>"

text \<open>
  A host where user \<^verbatim>\<open>42\<close> is logged in with the given voice state, and the engine
  has the stream connection before the default one.
\<close>

definition hostWithVoice :: "bool \<Rightarrow> bool \<Rightarrow> Host" where
  "hostWithVoice muted deafened =
    \<lparr>currentUserId = Some ''42'',
     getVoiceStateForUser =
       Some (\<lambda>uid. if uid = ''42'' then Some \<lparr>selfMute = muted, selfDeaf = deafened\<rparr> else None),
     connections = Some [Some streamConnection, Some defaultConnection],
     storeWriteFiresOnChange = False\<rparr>"

text \<open>A host where nobody is logged in, with the same engine.\<close>

definition hostWithoutUser :: Host where
  "hostWithoutUser =
    \<lparr>currentUserId = None,
     getVoiceStateForUser = Some (\<lambda>uid. None),
     connections = Some [Some streamConnection, Some defaultConnection],
     storeWriteFiresOnChange = False\<rparr>"

text \<open>A host whose engine has a vacant entry and then only a stream connection.\<close>

definition hostStreamOnly :: Host where
  "hostStreamOnly =
    \<lparr>currentUserId = Some ''42'',
     getVoiceStateForUser = Some (\<lambda>uid. None),
     connections = Some [None, Some streamConnection],
     storeWriteFiresOnChange = False\<rparr>"

definition eventAltM :: KeyboardEvent where
  "eventAltM =
    \<lparr>event_key = ''m'', event_code = ''KeyM'',
     ctrlKey = False, shiftKey = False, altKey = True, metaKey = False,
     repeat = False, defaultPrevented = False,
     target = NotHTMLElement\<rparr>"

definition eventAltMInInput :: KeyboardEvent where
  "eventAltMInInput = eventAltM\<lparr>target := HTMLElement ''INPUT'' False\<rparr>"

text \<open>The plugin started, with Alt+M as the shortcut of fake mute.\<close>

definition startedWithAltM :: PluginState where
  "startedWithAltM =
    startHotkeyListener (onHotkeyChange MuteRow (keybindFromEvent eventAltM) initialState)"

text \<open>The plugin started, and the mute row recording.\<close>

definition muteRowRecording :: PluginState where
  "muteRowRecording = clickRecord MuteRow (startHotkeyListener initialState)"

section \<open>Properties of the shortcut model\<close>

text \<open>
  C8: on a platform that is not a Mac, the shortcut
  \<^verbatim>\<open>{key:"m", code:"KeyM", ctrl:false, shift:false, alt:true, meta:false}\<close> is displayed
  as \<^verbatim>\<open>Alt+M\<close>, and an absent shortcut is displayed as \<^verbatim>\<open>Not set\<close> (on every
  platform).
\<close>

theorem formatKeybind_scenario:
  "formatKeybind False
     (Some \<lparr>key = ''m'', code = ''KeyM'', ctrl = False, shift = False, alt = True, meta = False\<rparr>)
     = ''Alt+M''
   \<and> formatKeybind IS_MAC None = ''Not set''"
  by (simp add: formatKeybind_def formatKeyName_def KEY_LABEL_OVERRIDES_def
      toUpperCase_def toUpperCase_char_def)

text \<open>
  C5: an event whose key is none of Shift, Control, Alt, Meta is turned into a
  shortcut by \<^verbatim>\<open>keybindFromEvent\<close>, and the event matches that shortcut.
\<close>

theorem keybind_roundtrip:
  assumes "event_key e \<notin> {''Shift'', ''Control'', ''Alt'', ''Meta''}"
  shows "keybindFromEvent e \<noteq> None \<and> matchesKeybind e (keybindFromEvent e)"
  using assms by (simp add: keybindFromEvent_def matchesKeybind_def MODIFIER_KEYS_def)

theorem keybind_roundtrip_witness:
  "event_key eventAltM \<notin> {''Shift'', ''Control'', ''Alt'', ''Meta''}
   \<and> keybindFromEvent eventAltM \<noteq> None
   \<and> matchesKeybind eventAltM (keybindFromEvent eventAltM)"
proof -
  have k: "event_key eventAltM \<notin> {''Shift'', ''Control'', ''Alt'', ''Meta''}"
    by (simp add: eventAltM_def)
  from keybind_roundtrip [OF k] k show ?thesis by simp
qed

section \<open>Properties of the synchronizer\<close>

lemma engineCalls_setLocalMute:
  "engineCalls (setLocalMute h b s) =
     engineCalls s @
       (case getDefaultMediaConnection h of
          None \<Rightarrow> []
        | Some c \<Rightarrow> if hasSetSelfMute c then [SetSelfMute c b] else [])"
  by (simp add: setLocalMute_def split: option.split)

lemma engineCalls_setLocalDeaf:
  "engineCalls (setLocalDeaf h b s) =
     engineCalls s @
       (case getDefaultMediaConnection h of
          None \<Rightarrow> []
        | Some c \<Rightarrow> if hasSetSelfDeaf c then [SetSelfDeaf c b] else [])"
  by (simp add: setLocalDeaf_def split: option.split)

lemma lastSelfMute_setLocalMute [simp]: "lastSelfMute (setLocalMute h b s) = lastSelfMute s"
  by (simp add: setLocalMute_def split: option.split)

lemma lastSelfDeaf_setLocalDeaf [simp]: "lastSelfDeaf (setLocalDeaf h b s) = lastSelfDeaf s"
  by (simp add: setLocalDeaf_def split: option.split)

lemma lastSelfMute_syncFakeMute_True:
  "lastSelfMute (syncFakeMute h True s) = map_option selfMute (getSelfVoiceState h)"
  by (simp add: syncFakeMute_def)

lemma lastSelfDeaf_syncFakeDeafen_True:
  "lastSelfDeaf (syncFakeDeafen h True s) = map_option selfDeaf (getSelfVoiceState h)"
  by (simp add: syncFakeDeafen_def)

lemma syncFakeMute_False_stored:
  assumes "lastSelfMute s = Some b"
  shows "engineCalls (syncFakeMute h False s) = engineCalls (setLocalMute h b s)"
    and "lastSelfMute (syncFakeMute h False s) = None"
  using assms by (simp_all add: syncFakeMute_def)

lemma syncFakeDeafen_False_stored:
  assumes "lastSelfDeaf s = Some b"
  shows "engineCalls (syncFakeDeafen h False s) = engineCalls (setLocalDeaf h b s)"
    and "lastSelfDeaf (syncFakeDeafen h False s) = None"
  using assms by (simp_all add: syncFakeDeafen_def)

lemma syncFakeMute_False_unset:
  assumes "lastSelfMute s = None"
  shows "syncFakeMute h False s =
          (case getSelfVoiceState h of None \<Rightarrow> s | Some vs \<Rightarrow> setLocalMute h (selfMute vs) s)"
  using assms by (simp add: syncFakeMute_def)

lemma syncFakeDeafen_False_unset:
  assumes "lastSelfDeaf s = None"
  shows "syncFakeDeafen h False s =
          (case getSelfVoiceState h of None \<Rightarrow> s | Some vs \<Rightarrow> setLocalDeaf h (selfDeaf vs) s)"
  using assms by (simp add: syncFakeDeafen_def)

text \<open>
  C1: enabling a fake state and disabling it again ends with a setter call that
  carries the real flag the voice-state service reported at the moment of enabling,
  whatever that flag was, and leaves the channel's shadow slot unset. The host may
  have changed between the two calls; at the second one the engine connection is
  resolved and offers the setters.
\<close>

theorem sync_enable_then_disable_restores:
  assumes "getSelfVoiceState h1 = Some vs"
    and "getDefaultMediaConnection h2 = Some c"
    and "hasSetSelfMute c" and "hasSetSelfDeaf c"
  shows "engineCalls (syncFakeMute h2 False (syncFakeMute h1 True s))
           = engineCalls (syncFakeMute h1 True s) @ [SetSelfMute c (selfMute vs)]
       \<and> lastSelfMute (syncFakeMute h2 False (syncFakeMute h1 True s)) = None
       \<and> engineCalls (syncFakeDeafen h2 False (syncFakeDeafen h1 True s))
           = engineCalls (syncFakeDeafen h1 True s) @ [SetSelfDeaf c (selfDeaf vs)]
       \<and> lastSelfDeaf (syncFakeDeafen h2 False (syncFakeDeafen h1 True s)) = None"
proof -
  have m: "lastSelfMute (syncFakeMute h1 True s) = Some (selfMute vs)"
    using assms(1) by (simp add: lastSelfMute_syncFakeMute_True)
  have d: "lastSelfDeaf (syncFakeDeafen h1 True s) = Some (selfDeaf vs)"
    using assms(1) by (simp add: lastSelfDeaf_syncFakeDeafen_True)
  show ?thesis
    using assms(2-4)
    by (simp add: syncFakeMute_False_stored [OF m] syncFakeDeafen_False_stored [OF d]
        engineCalls_setLocalMute engineCalls_setLocalDeaf)
qed

theorem sync_enable_then_disable_restores_witness:
  "engineCalls (syncFakeMute (hostWithVoice False False) False
                  (syncFakeMute (hostWithVoice True True) True initialState))
     = [SetSelfMute defaultConnection False, SetSelfMute defaultConnection True]
   \<and> lastSelfMute (syncFakeMute (hostWithVoice False False) False
                     (syncFakeMute (hostWithVoice True True) True initialState)) = None
   \<and> engineCalls (syncFakeDeafen (hostWithVoice False False) False
                    (syncFakeDeafen (hostWithVoice True True) True initialState))
     = [SetSelfDeaf defaultConnection False, SetSelfDeaf defaultConnection True]
   \<and> lastSelfDeaf (syncFakeDeafen (hostWithVoice False False) False
                     (syncFakeDeafen (hostWithVoice True True) True initialState)) = None"
proof -
  have v: "getSelfVoiceState (hostWithVoice True True) = Some \<lparr>selfMute = True, selfDeaf = True\<rparr>"
    by (simp add: getSelfVoiceState_def hostWithVoice_def)
  have c: "getDefaultMediaConnection (hostWithVoice False False) = Some defaultConnection"
    by (simp add: getDefaultMediaConnection_def hostWithVoice_def
        defaultConnection_def streamConnection_def)
  have c': "getDefaultMediaConnection (hostWithVoice True True) = Some defaultConnection"
    by (simp add: getDefaultMediaConnection_def hostWithVoice_def
        defaultConnection_def streamConnection_def)
  have m: "hasSetSelfMute defaultConnection" and d: "hasSetSelfDeaf defaultConnection"
    by (simp_all add: defaultConnection_def)
  have first:
    "engineCalls (syncFakeMute (hostWithVoice True True) True initialState)
       = [SetSelfMute defaultConnection False]"
    "engineCalls (syncFakeDeafen (hostWithVoice True True) True initialState)
       = [SetSelfDeaf defaultConnection False]"
    using c' m d
    by (simp_all add: syncFakeMute_def syncFakeDeafen_def engineCalls_setLocalMute
        engineCalls_setLocalDeaf initialState_def)
  from sync_enable_then_disable_restores [OF v c m d, of initialState] first
  show ?thesis by simp
qed

text \<open>
  C3: disabling a fake state while the channel's shadow slot is unset calls the
  setter with the real flag that the voice-state service reports at that moment, and
  the slot stays unset. The voice state is available and the engine connection is
  resolved and offers the setters.
\<close>

theorem sync_disable_without_enable_reconciles:
  assumes "getSelfVoiceState h = Some vs"
    and "getDefaultMediaConnection h = Some c"
    and "hasSetSelfMute c" and "hasSetSelfDeaf c"
  shows "(lastSelfMute s = None \<longrightarrow>
            engineCalls (syncFakeMute h False s) = engineCalls s @ [SetSelfMute c (selfMute vs)]
            \<and> lastSelfMute (syncFakeMute h False s) = None)
       \<and> (lastSelfDeaf s = None \<longrightarrow>
            engineCalls (syncFakeDeafen h False s) = engineCalls s @ [SetSelfDeaf c (selfDeaf vs)]
            \<and> lastSelfDeaf (syncFakeDeafen h False s) = None)"
  using assms
  by (simp add: syncFakeMute_False_unset syncFakeDeafen_False_unset
      engineCalls_setLocalMute engineCalls_setLocalDeaf)

theorem sync_disable_without_enable_reconciles_witness:
  "lastSelfMute initialState = None
   \<and> lastSelfDeaf initialState = None
   \<and> engineCalls (syncFakeMute (hostWithVoice True False) False initialState)
       = [SetSelfMute defaultConnection True]
   \<and> lastSelfMute (syncFakeMute (hostWithVoice True False) False initialState) = None
   \<and> engineCalls (syncFakeDeafen (hostWithVoice False True) False initialState)
       = [SetSelfDeaf defaultConnection True]
   \<and> lastSelfDeaf (syncFakeDeafen (hostWithVoice False True) False initialState) = None"
proof -
  have v1: "getSelfVoiceState (hostWithVoice True False) = Some \<lparr>selfMute = True, selfDeaf = False\<rparr>"
    and v2: "getSelfVoiceState (hostWithVoice False True) = Some \<lparr>selfMute = False, selfDeaf = True\<rparr>"
    by (simp_all add: getSelfVoiceState_def hostWithVoice_def)
  have c: "getDefaultMediaConnection (hostWithVoice a b) = Some defaultConnection" for a b
    by (simp add: getDefaultMediaConnection_def hostWithVoice_def
        defaultConnection_def streamConnection_def)
  have m: "hasSetSelfMute defaultConnection" and d: "hasSetSelfDeaf defaultConnection"
    by (simp_all add: defaultConnection_def)
  have u: "lastSelfMute initialState = None" "lastSelfDeaf initialState = None"
    "engineCalls initialState = []"
    by (simp_all add: initialState_def)
  from sync_disable_without_enable_reconciles [OF v1 c m d, of initialState]
    sync_disable_without_enable_reconciles [OF v2 c m d, of initialState] u
  show ?thesis by simp
qed

text \<open>
  C9: enabling a fake state twice in a row, with no disabling in between, leaves in
  the shadow slot what the voice-state service reported at the second call (nothing,
  when it reported nothing); what the first call stored is gone, and the next
  disabling restores the second observation.
\<close>

theorem sync_enable_twice_overwrites:
  assumes "getSelfVoiceState h2 = Some vs2"
    and "getDefaultMediaConnection h3 = Some c"
    and "hasSetSelfMute c" and "hasSetSelfDeaf c"
  shows "lastSelfMute (syncFakeMute h2 True (syncFakeMute h1 True s)) = Some (selfMute vs2)
       \<and> engineCalls (syncFakeMute h3 False (syncFakeMute h2 True (syncFakeMute h1 True s)))
           = engineCalls (syncFakeMute h2 True (syncFakeMute h1 True s))
               @ [SetSelfMute c (selfMute vs2)]
       \<and> lastSelfDeaf (syncFakeDeafen h2 True (syncFakeDeafen h1 True s)) = Some (selfDeaf vs2)
       \<and> engineCalls (syncFakeDeafen h3 False (syncFakeDeafen h2 True (syncFakeDeafen h1 True s)))
           = engineCalls (syncFakeDeafen h2 True (syncFakeDeafen h1 True s))
               @ [SetSelfDeaf c (selfDeaf vs2)]"
proof -
  have m: "lastSelfMute (syncFakeMute h2 True (syncFakeMute h1 True s)) = Some (selfMute vs2)"
    using assms(1) by (simp add: lastSelfMute_syncFakeMute_True)
  have d: "lastSelfDeaf (syncFakeDeafen h2 True (syncFakeDeafen h1 True s)) = Some (selfDeaf vs2)"
    using assms(1) by (simp add: lastSelfDeaf_syncFakeDeafen_True)
  show ?thesis
    using assms(2-4) m d
    by (simp add: syncFakeMute_False_stored [OF m] syncFakeDeafen_False_stored [OF d]
        engineCalls_setLocalMute engineCalls_setLocalDeaf)
qed

theorem sync_enable_twice_overwrites_witness:
  "lastSelfMute (syncFakeMute (hostWithVoice True True) True initialState) = Some True
   \<and> lastSelfMute (syncFakeMute (hostWithVoice False False) True
                     (syncFakeMute (hostWithVoice True True) True initialState)) = Some False
   \<and> last (engineCalls (syncFakeMute (hostWithVoice True True) False
                     (syncFakeMute (hostWithVoice False False) True
                       (syncFakeMute (hostWithVoice True True) True initialState))))
       = SetSelfMute defaultConnection False
   \<and> lastSelfDeaf (syncFakeDeafen (hostWithVoice True True) True initialState) = Some True
   \<and> lastSelfDeaf (syncFakeDeafen (hostWithVoice False False) True
                     (syncFakeDeafen (hostWithVoice True True) True initialState)) = Some False
   \<and> last (engineCalls (syncFakeDeafen (hostWithVoice True True) False
                     (syncFakeDeafen (hostWithVoice False False) True
                       (syncFakeDeafen (hostWithVoice True True) True initialState))))
       = SetSelfDeaf defaultConnection False"
proof -
  have v: "getSelfVoiceState (hostWithVoice a b) = Some \<lparr>selfMute = a, selfDeaf = b\<rparr>" for a b
    by (simp add: getSelfVoiceState_def hostWithVoice_def)
  have c: "getDefaultMediaConnection (hostWithVoice a b) = Some defaultConnection" for a b
    by (simp add: getDefaultMediaConnection_def hostWithVoice_def
        defaultConnection_def streamConnection_def)
  have m: "hasSetSelfMute defaultConnection" and d: "hasSetSelfDeaf defaultConnection"
    by (simp_all add: defaultConnection_def)
  from sync_enable_twice_overwrites [OF v [of False False] c [of True True] m d,
      where ?h1.0 = "hostWithVoice True True" and s = initialState]
  show ?thesis
    by (simp add: lastSelfMute_syncFakeMute_True lastSelfDeaf_syncFakeDeafen_True v)
qed

text \<open>
  What one call of a synchronizer adds to the log of setter calls: nothing when the
  connection is not resolved or lacks the setter, nothing when a disabling finds
  neither a stored flag nor a voice state, and one call otherwise.
\<close>

lemma newEngineCalls_syncFakeMute:
  "newEngineCalls s (syncFakeMute h n s) =
    (case getDefaultMediaConnection h of
       None \<Rightarrow> []
     | Some c \<Rightarrow>
        if \<not> hasSetSelfMute c then []
        else if n then [SetSelfMute c False]
        else (case lastSelfMute s of
                Some b \<Rightarrow> [SetSelfMute c b]
              | None \<Rightarrow>
                 (case getSelfVoiceState h of
                    None \<Rightarrow> []
                  | Some vs \<Rightarrow> [SetSelfMute c (selfMute vs)])))"
  by (simp add: newEngineCalls_def syncFakeMute_def setLocalMute_def split: option.split)

lemma newEngineCalls_syncFakeDeafen:
  "newEngineCalls s (syncFakeDeafen h n s) =
    (case getDefaultMediaConnection h of
       None \<Rightarrow> []
     | Some c \<Rightarrow>
        if \<not> hasSetSelfDeaf c then []
        else if n then [SetSelfDeaf c False]
        else (case lastSelfDeaf s of
                Some b \<Rightarrow> [SetSelfDeaf c b]
              | None \<Rightarrow>
                 (case getSelfVoiceState h of
                    None \<Rightarrow> []
                  | Some vs \<Rightarrow> [SetSelfDeaf c (selfDeaf vs)])))"
  by (simp add: newEngineCalls_def syncFakeDeafen_def setLocalDeaf_def split: option.split)

lemma example_connection_resolved:
  "getDefaultMediaConnection (hostWithVoice a b) = Some defaultConnection"
  "getDefaultMediaConnection hostWithoutUser = Some defaultConnection"
  "getDefaultMediaConnection hostStreamOnly = Some streamConnection"
  by (simp_all add: getDefaultMediaConnection_def hostWithVoice_def hostWithoutUser_def
      hostStreamOnly_def defaultConnection_def streamConnection_def)

lemma example_voice_state:
  "getSelfVoiceState (hostWithVoice a b) = Some \<lparr>selfMute = a, selfDeaf = b\<rparr>"
  "getSelfVoiceState hostWithoutUser = None"
  "getSelfVoiceState hostStreamOnly = None"
  by (simp_all add: getSelfVoiceState_def hostWithVoice_def hostWithoutUser_def
      hostStreamOnly_def)

text \<open>
  C2, as stated, fails: with nobody logged in the voice state is unavailable, and a
  disabling that finds the shadow slot unset then calls no setter, although the
  engine connection is resolved and offers both setters.
\<close>

theorem sync_exactly_one_call_counterexample:
  "getDefaultMediaConnection hostWithoutUser = Some defaultConnection
   \<and> hasSetSelfMute defaultConnection
   \<and> hasSetSelfDeaf defaultConnection
   \<and> engineCalls (syncFakeMute hostWithoutUser False initialState) = engineCalls initialState
   \<and> engineCalls (syncFakeDeafen hostWithoutUser False initialState) = engineCalls initialState"
  by (simp add: example_connection_resolved example_voice_state defaultConnection_def
      syncFakeMute_def syncFakeDeafen_def initialState_def)

text \<open>
  C2, amended: a call of a synchronizer makes at most one setter call. It makes
  exactly one when the engine connection is resolved and offers the channel's
  setter, and moreover the argument is true, or the shadow slot is set, or the voice
  state is available; in every other case it makes none.
\<close>

theorem sync_at_most_one_call:
  "length (newEngineCalls s (syncFakeMute h n s)) \<le> 1
   \<and> (length (newEngineCalls s (syncFakeMute h n s)) = 1) =
       ((\<exists>c. getDefaultMediaConnection h = Some c \<and> hasSetSelfMute c)
        \<and> (n \<or> lastSelfMute s \<noteq> None \<or> getSelfVoiceState h \<noteq> None))
   \<and> length (newEngineCalls s (syncFakeDeafen h n s)) \<le> 1
   \<and> (length (newEngineCalls s (syncFakeDeafen h n s)) = 1) =
       ((\<exists>c. getDefaultMediaConnection h = Some c \<and> hasSetSelfDeaf c)
        \<and> (n \<or> lastSelfDeaf s \<noteq> None \<or> getSelfVoiceState h \<noteq> None))"
  by (auto simp add: newEngineCalls_syncFakeMute newEngineCalls_syncFakeDeafen
      split: option.split)

theorem sync_at_most_one_call_witness:
  "length (newEngineCalls initialState (syncFakeMute (hostWithVoice True True) True initialState)) = 1
   \<and> length (newEngineCalls initialState (syncFakeMute hostWithoutUser False initialState)) = 0
   \<and> length (newEngineCalls initialState (syncFakeDeafen (hostWithVoice True True) False initialState)) = 1
   \<and> length (newEngineCalls initialState (syncFakeDeafen hostWithoutUser False initialState)) = 0"
proof -
  have u: "lastSelfMute initialState = None" "lastSelfDeaf initialState = None"
    by (simp_all add: initialState_def)
  have m: "hasSetSelfMute defaultConnection" "hasSetSelfDeaf defaultConnection"
    by (simp_all add: defaultConnection_def)
  from sync_at_most_one_call [of initialState "hostWithVoice True True" True]
    sync_at_most_one_call [of initialState hostWithoutUser False]
    sync_at_most_one_call [of initialState "hostWithVoice True True" False]
  show ?thesis
    by (auto simp add: u m example_connection_resolved example_voice_state le_Suc_eq)
qed

section \<open>The connection that the setters reach\<close>

lemma connectionLoop_chosen:
  "connectionLoop fb cs =
    (let present = concat (map (\<lambda>entry. case entry of None \<Rightarrow> [] | Some c \<Rightarrow> [c]) cs)
     in case find (\<lambda>c. connection_context c = ''default'') present of
          Some c \<Rightarrow> Some c
        | None \<Rightarrow>
           (case fb of
              Some f \<Rightarrow> Some f
            | None \<Rightarrow> (case present of [] \<Rightarrow> None | c # _ \<Rightarrow> Some c)))"
proof (induction cs arbitrary: fb)
  case Nil
  show ?case by (simp split: option.split)
next
  case (Cons entry cs)
  show ?case
  proof (cases entry)
    case None
    then show ?thesis by (simp add: Cons.IH Let_def split: option.split)
  next
    case (Some c)
    then show ?thesis by (simp add: Cons.IH Let_def split: option.split)
  qed
qed

text \<open>
  C10: the connection that \<^verbatim>\<open>getDefaultMediaConnection\<close> returns is the first
  connection whose context is \<^verbatim>\<open>default\<close>, else the first connection, else none; a
  setter call goes to that connection, and there is no call when there is none (or
  when it lacks the setter).
\<close>

theorem setter_targets_chosen_connection:
  "getDefaultMediaConnection h = chosenConnection h
   \<and> newEngineCalls s (setLocalMute h b s) =
       (case chosenConnection h of
          None \<Rightarrow> []
        | Some c \<Rightarrow> if hasSetSelfMute c then [SetSelfMute c b] else [])
   \<and> newEngineCalls s (setLocalDeaf h b s) =
       (case chosenConnection h of
          None \<Rightarrow> []
        | Some c \<Rightarrow> if hasSetSelfDeaf c then [SetSelfDeaf c b] else [])"
proof -
  have eq: "getDefaultMediaConnection h = chosenConnection h"
    by (simp add: getDefaultMediaConnection_def chosenConnection_def presentConnections_def
        connectionLoop_chosen Let_def split: option.split)
  show ?thesis
    by (simp add: eq [symmetric] newEngineCalls_def engineCalls_setLocalMute
        engineCalls_setLocalDeaf)
qed

theorem setter_targets_chosen_connection_witness:
  "getDefaultMediaConnection (hostWithVoice True True) = Some defaultConnection
   \<and> getDefaultMediaConnection hostStreamOnly = Some streamConnection
   \<and> getDefaultMediaConnection
        \<lparr>currentUserId = None, getVoiceStateForUser = None, connections = Some [None],
         storeWriteFiresOnChange = False\<rparr> = None
   \<and> newEngineCalls initialState (setLocalMute (hostWithVoice True True) True initialState)
       = [SetSelfMute defaultConnection True]
   \<and> newEngineCalls initialState (setLocalDeaf hostStreamOnly True initialState)
       = [SetSelfDeaf streamConnection True]"
proof -
  have a: "chosenConnection (hostWithVoice True True) = Some defaultConnection"
    by (simp add: chosenConnection_def presentConnections_def hostWithVoice_def
        defaultConnection_def streamConnection_def)
  have b: "chosenConnection hostStreamOnly = Some streamConnection"
    by (simp add: chosenConnection_def presentConnections_def hostStreamOnly_def
        streamConnection_def)
  have c: "chosenConnection
        \<lparr>currentUserId = None, getVoiceStateForUser = None, connections = Some [None],
         storeWriteFiresOnChange = False\<rparr> = None"
    by (simp add: chosenConnection_def presentConnections_def)
  have m: "hasSetSelfMute defaultConnection" "hasSetSelfDeaf streamConnection"
    by (simp_all add: defaultConnection_def streamConnection_def)
  from setter_targets_chosen_connection [of "hostWithVoice True True" initialState True]
    setter_targets_chosen_connection [of hostStreamOnly initialState True]
    setter_targets_chosen_connection
      [of "\<lparr>currentUserId = None, getVoiceStateForUser = None, connections = Some [None],
            storeWriteFiresOnChange = False\<rparr>" initialState True]
  show ?thesis by (simp add: a b c m)
qed

section \<open>Properties of the hotkey dispatcher\<close>

text \<open>
  C6: when the target of a key event is a text-editing surface (an HTML element
  inside an editable region, or an input, textarea or select element), the
  dispatcher returns the state as it was and does not cancel the event: the fake
  flags, the shadow slots and the log of setter calls are unchanged, whether or not
  the event matches a configured shortcut.
\<close>

theorem hotkeys_ignore_text_editing:
  assumes "target e = HTMLElement tag editable"
    and "editable \<or> toLowerCase tag = ''input'' \<or> toLowerCase tag = ''textarea''
         \<or> toLowerCase tag = ''select''"
  shows "handleHotkeys h e s = (s, False)"
  using assms by (auto simp add: handleHotkeys_def shouldIgnoreKeybindTarget_def Let_def)

lemma startedWithAltM_toggles:
  "fakeMute (store (fst (handleHotkeys (hostWithVoice True False) eventAltM startedWithAltM)))"
  by (simp add: handleHotkeys_def startedWithAltM_def startHotkeyListener_def onHotkeyChange_def
      initialState_def eventAltM_def keybindFromEvent_def MODIFIER_KEYS_def matchesKeybind_def
      shouldIgnoreKeybindTarget_def addEventListener_def write_fakeMute_def hostWithVoice_def
      syncFakeMute_def setLocalMute_def defaultSettings_def Let_def split: option.split)

theorem hotkeys_ignore_text_editing_witness:
  "matchesKeybind eventAltMInInput (fakeMuteHotkey (store startedWithAltM))
   \<and> handleHotkeys (hostWithVoice True False) eventAltMInInput startedWithAltM
       = (startedWithAltM, False)
   \<and> fakeMute (store (fst (handleHotkeys (hostWithVoice True False) eventAltM startedWithAltM)))"
proof -
  have t: "target eventAltMInInput = HTMLElement ''INPUT'' False"
    by (simp add: eventAltMInInput_def)
  have i: "False \<or> toLowerCase ''INPUT'' = ''input'' \<or> toLowerCase ''INPUT'' = ''textarea''
         \<or> toLowerCase ''INPUT'' = ''select''"
    by (simp add: toLowerCase_def toLowerCase_char_def)
  have m: "matchesKeybind eventAltMInInput (fakeMuteHotkey (store startedWithAltM))"
    by (simp add: startedWithAltM_def startHotkeyListener_def onHotkeyChange_def
      initialState_def eventAltM_def eventAltMInInput_def keybindFromEvent_def MODIFIER_KEYS_def
      matchesKeybind_def addEventListener_def)
  from hotkeys_ignore_text_editing [OF t i] m startedWithAltM_toggles show ?thesis by simp
qed

section \<open>Lifecycle of the hotkey listener\<close>

text \<open>
  What starting and stopping do to the module's variables and to the listener on the
  window: a repeated start or stop returns the state as it is; stopping a running
  listener removes it, marks it stopped, empties the recorder slot and resets the
  recording flag.
\<close>

lemma hotkey_listener_lifecycle:
  "startHotkeyListener (startHotkeyListener s) = startHotkeyListener s
   \<and> (hotkeyListenerActive s \<longrightarrow> startHotkeyListener s = s)
   \<and> (\<not> hotkeyListenerActive s \<longrightarrow>
        HandleHotkeys \<in> keydownListeners (startHotkeyListener s)
        \<and> hotkeyListenerActive (startHotkeyListener s))
   \<and> (\<not> hotkeyListenerActive s \<longrightarrow> stopHotkeyListener s = s)
   \<and> (hotkeyListenerActive s \<longrightarrow>
        HandleHotkeys \<notin> keydownListeners (stopHotkeyListener s)
        \<and> \<not> hotkeyListenerActive (stopHotkeyListener s)
        \<and> activeKeybindRecorderStop (stopHotkeyListener s) = None
        \<and> \<not> isRecordingKeybind (stopHotkeyListener s)
        \<and> activeKeybindRecorderStop (startHotkeyListener (stopHotkeyListener s)) = None
        \<and> \<not> isRecordingKeybind (startHotkeyListener (stopHotkeyListener s)))"
  by (simp add: startHotkeyListener_def stopHotkeyListener_def addEventListener_def
      removeEventListener_def)

text \<open>
  Stopping touches neither the React state of a row nor a row's key listener.
\<close>

lemma stopHotkeyListener_rows:
  "isRecording (stopHotkeyListener s) = isRecording s"
  "(HandleKeyDown r \<in> keydownListeners (stopHotkeyListener s))
     = (HandleKeyDown r \<in> keydownListeners s)"
  by (simp_all add: stopHotkeyListener_def removeEventListener_def)

section \<open>Properties of the recorder arbiter\<close>

text \<open>
  The invariant \<open>recorderInv\<close> holds in an idle state and is kept by every action on
  the rows, by keys, by the hotkeys and the voice panel buttons, and by starting the
  hotkey listener. It is not kept by stopping the hotkey listener while a row is
  recording.
\<close>

lemma Row_all: "(\<forall>r. P r) = (P MuteRow \<and> P DeafenRow)"
  by (metis Row.exhaust)

lemma recorderInv_idle: "recorderIdle s \<Longrightarrow> recorderInv s"
  by (simp add: recorderIdle_def recorderInv_def Row_all)

lemmas recorder_defs =
  reactFlush_def reactCommit_def effectPending_def KeybindRow_effect_def KeybindRow_cleanup_def
  addEventListener_def removeEventListener_def stopRecording_def setIsRecording_def

text \<open>After the two commits no row has an effect pending, whatever the state was.\<close>

lemma reactFlush_quiescent: "\<not> effectPending (reactFlush s) r"
proof (cases "activeKeybindRecorderStop s")
  case None
  then show ?thesis
    by (cases r; cases "isRecording s MuteRow"; cases "isRecording s DeafenRow";
        cases "HandleKeyDown MuteRow \<in> keydownListeners s";
        cases "HandleKeyDown DeafenRow \<in> keydownListeners s")
      (simp_all add: recorder_defs Let_def)
next
  case (Some a)
  then show ?thesis
    by (cases r; cases a; cases "isRecording s MuteRow"; cases "isRecording s DeafenRow";
        cases "HandleKeyDown MuteRow \<in> keydownListeners s";
        cases "HandleKeyDown DeafenRow \<in> keydownListeners s")
      (simp_all add: recorder_defs Let_def)
qed

text \<open>
  In any state, the effect of a row that starts recording calls the capability of
  another row that it finds in the slot, and only then puts its own there.
\<close>

lemma effect_preempts:
  assumes "activeKeybindRecorderStop t = Some a" and "a \<noteq> r"
  shows "recorderLog (KeybindRow_effect r True t)
           = recorderLog t @ [StopCapabilityInvoked a, SessionActivated r]"
    and "\<not> isRecording (KeybindRow_effect r True t) a"
    and "activeKeybindRecorderStop (KeybindRow_effect r True t) = Some r"
  using assms
  by (simp_all add: KeybindRow_effect_def stopRecording_def setIsRecording_def
      addEventListener_def Let_def)

lemma recorderInv_clickRecord:
  assumes "recorderInv s"
  shows "recorderInv (clickRecord r s)"
proof (cases "activeKeybindRecorderStop s")
  case None
  with assms show ?thesis
    by (cases r) (simp_all add: recorderInv_def Row_all clickRecord_def recorder_defs Let_def)
next
  case (Some a)
  with assms show ?thesis
    by (cases r; cases a) (simp_all add: recorderInv_def Row_all clickRecord_def recorder_defs Let_def)
qed

text \<open>Ending the recording of the row that holds the session leaves the recorder idle.\<close>

lemma recorderInv_stop_own:
  assumes "recorderInv s" and "HandleKeyDown r \<in> keydownListeners s"
  shows "recorderInv (reactFlush (setIsRecording r False s))"
  using assms
  by (cases r) (simp_all add: recorderInv_def Row_all recorder_defs Let_def)

lemma recorderInv_view:
  "recorderInv s \<Longrightarrow> recorderView s' = recorderView s \<Longrightarrow> recorderInv s'"
  by (simp add: recorderView_def recorderInv_def)

lemma recorderView_onHotkeyChange [simp]: "recorderView (onHotkeyChange r v s) = recorderView s"
  by (cases r) (simp_all add: recorderView_def onHotkeyChange_def)

lemma recorderView_onEnabledChange [simp]: "recorderView (onEnabledChange r v s) = recorderView s"
  by (cases r) (simp_all add: recorderView_def onEnabledChange_def)

lemma recorderView_setLocalMute [simp]: "recorderView (setLocalMute h b s) = recorderView s"
  by (simp add: recorderView_def setLocalMute_def split: option.split)

lemma recorderView_setLocalDeaf [simp]: "recorderView (setLocalDeaf h b s) = recorderView s"
  by (simp add: recorderView_def setLocalDeaf_def split: option.split)

lemma recorderView_lastSelfMute [simp]: "recorderView (s\<lparr>lastSelfMute := x\<rparr>) = recorderView s"
  and recorderView_lastSelfDeaf [simp]: "recorderView (s\<lparr>lastSelfDeaf := y\<rparr>) = recorderView s"
  and recorderView_store [simp]: "recorderView (s\<lparr>store := z\<rparr>) = recorderView s"
  by (simp_all add: recorderView_def)

lemma recorderView_syncFakeMute [simp]: "recorderView (syncFakeMute h n s) = recorderView s"
  by (simp add: syncFakeMute_def Let_def split: option.split)

lemma recorderView_syncFakeDeafen [simp]: "recorderView (syncFakeDeafen h n s) = recorderView s"
  by (simp add: syncFakeDeafen_def Let_def split: option.split)

lemma recorderView_write_fakeMute [simp]: "recorderView (write_fakeMute h v s) = recorderView s"
  by (simp add: write_fakeMute_def Let_def)

lemma recorderView_write_fakeDeafen [simp]: "recorderView (write_fakeDeafen h v s) = recorderView s"
  by (simp add: write_fakeDeafen_def Let_def)

lemma recorderView_handleHotkeys [simp]:
  "recorderView (fst (handleHotkeys h e s)) = recorderView s"
  by (simp add: handleHotkeys_def Let_def)

lemma recorderView_clickFakeMuteButton [simp]:
  "recorderView (clickFakeMuteButton h s) = recorderView s"
  by (simp add: clickFakeMuteButton_def Let_def)

lemma recorderView_clickFakeDeafenButton [simp]:
  "recorderView (clickFakeDeafenButton h s) = recorderView s"
  by (simp add: clickFakeDeafenButton_def Let_def)

lemma recorderInv_handleKeyDown:
  assumes "recorderInv s" and "HandleKeyDown r \<in> keydownListeners s"
  shows "recorderInv (reactFlush (handleKeyDown r e s))"
proof -
  have quiet: "reactFlush s = s"
    using assms(1) by (simp add: recorderInv_def Row_all recorder_defs Let_def)
  consider (ignored) "handleKeyDown r e s = s"
    | (escape) "handleKeyDown r e s = setIsRecording r False s"
    | (captured) kb where
        "handleKeyDown r e s = setIsRecording r False (onHotkeyChange r (Some kb) s)"
    by (cases "repeat e"; cases "event_key e = ''Escape''"; cases "keybindFromEvent e")
      (simp_all add: handleKeyDown_def)
  then show ?thesis
  proof cases
    case ignored
    with assms(1) quiet show ?thesis by simp
  next
    case escape
    with recorderInv_stop_own [OF assms] show ?thesis by simp
  next
    case (captured kb)
    have inv': "recorderInv (onHotkeyChange r (Some kb) s)"
      by (rule recorderInv_view [OF assms(1)]) simp
    have l': "HandleKeyDown r \<in> keydownListeners (onHotkeyChange r (Some kb) s)"
      using assms(2) by (cases r) (simp_all add: onHotkeyChange_def)
    from recorderInv_stop_own [OF inv' l'] captured show ?thesis by simp
  qed
qed

lemma recorderInv_keydownWhileRecording:
  "recorderInv s \<Longrightarrow> recorderInv (keydownWhileRecording r e s)"
  by (simp add: keydownWhileRecording_def recorderInv_handleKeyDown)

lemma recorderInv_startHotkeyListener:
  "recorderInv s \<Longrightarrow> recorderInv (startHotkeyListener s)"
  by (simp add: recorderInv_def startHotkeyListener_def addEventListener_def)

lemma recorderInv_other_steps:
  assumes "recorderInv s"
  shows "recorderInv (clickClear r s)"
    and "recorderInv (onEnabledChange r v s)"
    and "recorderInv (fst (handleHotkeys h e s))"
    and "recorderInv (clickFakeMuteButton h s)"
    and "recorderInv (clickFakeDeafenButton h s)"
proof -
  show "recorderInv (clickClear r s)"
    unfolding clickClear_def by (rule recorderInv_view [OF assms]) simp
  show "recorderInv (onEnabledChange r v s)"
    by (rule recorderInv_view [OF assms]) simp
  show "recorderInv (fst (handleHotkeys h e s))"
    by (rule recorderInv_view [OF assms]) simp
  show "recorderInv (clickFakeMuteButton h s)"
    by (rule recorderInv_view [OF assms]) simp
  show "recorderInv (clickFakeDeafenButton h s)"
    by (rule recorderInv_view [OF assms]) simp
qed

text \<open>Stopping the hotkey listener keeps the invariant when no row is recording.\<close>

lemma recorderInv_stopHotkeyListener:
  "recorderInv s \<Longrightarrow> activeKeybindRecorderStop s = None \<Longrightarrow> recorderInv (stopHotkeyListener s)"
  by (simp add: recorderInv_def stopHotkeyListener_def removeEventListener_def)

text \<open>The invariant allows one recording row at most.\<close>

lemma recorderInv_at_most_one:
  "recorderInv s \<Longrightarrow> sessionActive s r \<Longrightarrow> sessionActive s r' \<Longrightarrow> r = r'"
  by (simp add: recorderInv_def sessionActive_def)

text \<open>
  Under the invariant, a click that starts a row while another row holds the slot
  calls the other row's capability first.
\<close>

lemma preempt_log:
  assumes "recorderInv s" and "activeKeybindRecorderStop s = Some a" and "r \<noteq> a"
  shows "recorderLog (clickRecord r s)
           = recorderLog s @ [StopCapabilityInvoked a, SessionActivated r]"
  using assms
  by (cases r; cases a)
    (simp_all add: recorderInv_def Row_all clickRecord_def recorder_defs Let_def)

lemma preempt_slot:
  assumes "recorderInv s" and "activeKeybindRecorderStop s = Some a" and "r \<noteq> a"
  shows "activeKeybindRecorderStop (clickRecord r s) = Some r"
  using assms
  by (cases r; cases a)
    (simp_all add: recorderInv_def Row_all clickRecord_def recorder_defs Let_def)

section \<open>Stopping the hotkey listener while a row is recording\<close>

text \<open>
  \<^verbatim>\<open>stopHotkeyListener\<close> assigns \<^verbatim>\<open>null\<close> to \<^verbatim>\<open>activeKeybindRecorderStop\<close> without
  calling the capability it held (the effect of \<^verbatim>\<open>KeybindRow\<close> calls it before it
  replaces it). The row that was recording therefore stays in its Recording state
  with its key listener attached, while the slot says that nobody records.
\<close>

lemmas example_defs =
  muteRowRecording_def clickRecord_def recorder_defs startHotkeyListener_def
  stopHotkeyListener_def initialState_def sessionActive_def Let_def

lemma recorderInv_muteRowRecording: "recorderInv muteRowRecording"
  by (simp add: recorderInv_def Row_all example_defs)

lemma stop_breaks_recorderInv: "\<not> recorderInv (stopHotkeyListener muteRowRecording)"
  by (simp add: recorderInv_def Row_all example_defs)

text \<open>Without the stop, the second row pre-empts the first.\<close>

lemma preemption_example:
  "recorderLog (clickRecord DeafenRow muteRowRecording)
     = [SessionActivated MuteRow, StopCapabilityInvoked MuteRow, SessionActivated DeafenRow]
   \<and> \<not> sessionActive (clickRecord DeafenRow muteRowRecording) MuteRow
   \<and> sessionActive (clickRecord DeafenRow muteRowRecording) DeafenRow
   \<and> HandleKeyDown MuteRow \<notin> keydownListeners (clickRecord DeafenRow muteRowRecording)"
  by (simp add: example_defs)

text \<open>
  C4 (the code departs from the claim): the plugin is started and the mute row is
  recording; the hotkey listener is stopped; the deafen row is clicked. Then both
  rows have a recording session, both key listeners are attached, and the mute
  row's stop capability was never called: the log holds the two activations only.
\<close>

theorem two_rows_recording_after_stop:
  "sessionActive muteRowRecording MuteRow
   \<and> \<not> sessionActive muteRowRecording DeafenRow
   \<and> sessionActive (stopHotkeyListener muteRowRecording) MuteRow
   \<and> sessionActive (clickRecord DeafenRow (stopHotkeyListener muteRowRecording)) MuteRow
   \<and> sessionActive (clickRecord DeafenRow (stopHotkeyListener muteRowRecording)) DeafenRow
   \<and> HandleKeyDown MuteRow
        \<in> keydownListeners (clickRecord DeafenRow (stopHotkeyListener muteRowRecording))
   \<and> HandleKeyDown DeafenRow
        \<in> keydownListeners (clickRecord DeafenRow (stopHotkeyListener muteRowRecording))
   \<and> recorderLog (clickRecord DeafenRow (stopHotkeyListener muteRowRecording))
       = [SessionActivated MuteRow, SessionActivated DeafenRow]"
  by (simp add: example_defs)

text \<open>
  C7 (the code departs from the claim): the plugin is started and the mute row is
  recording; the hotkey listener is stopped. The slot and the flag are reset, but
  the mute row still has its recording session and its key listener, also after the
  listener is started again, and the next key (Alt+M) is captured and stored as the
  shortcut of fake mute.
\<close>

theorem row_keeps_recording_across_stop_start:
  "hotkeyListenerActive muteRowRecording
   \<and> sessionActive muteRowRecording MuteRow
   \<and> activeKeybindRecorderStop muteRowRecording = Some MuteRow
   \<and> \<not> hotkeyListenerActive (stopHotkeyListener muteRowRecording)
   \<and> activeKeybindRecorderStop (stopHotkeyListener muteRowRecording) = None
   \<and> \<not> isRecordingKeybind (stopHotkeyListener muteRowRecording)
   \<and> sessionActive (stopHotkeyListener muteRowRecording) MuteRow
   \<and> HandleKeyDown MuteRow \<in> keydownListeners (stopHotkeyListener muteRowRecording)
   \<and> sessionActive (startHotkeyListener (stopHotkeyListener muteRowRecording)) MuteRow
   \<and> HandleKeyDown MuteRow
        \<in> keydownListeners (startHotkeyListener (stopHotkeyListener muteRowRecording))
   \<and> fakeMuteHotkey (store (startHotkeyListener (stopHotkeyListener muteRowRecording))) = None
   \<and> fakeMuteHotkey
        (store (keydownWhileRecording MuteRow eventAltM
                 (startHotkeyListener (stopHotkeyListener muteRowRecording))))
       = Some \<lparr>key = ''m'', code = ''KeyM'', ctrl = False, shift = False, alt = True,
                meta = False\<rparr>"
  by (simp add: example_defs keydownWhileRecording_def handleKeyDown_def onHotkeyChange_def
      keybindFromEvent_def MODIFIER_KEYS_def eventAltM_def defaultSettings_def)

end
